theory Spec2Isabelle
  imports Complex_Main "HOL-Library.Multiset"
begin

section \<open>JavaScript numbers\<close>

text \<open>
  A JavaScript \<open>number\<close> is an IEEE-754 double: a finite value, \<open>NaN\<close>, or one of the
  two infinities (negative zero is not told apart from zero). Finite values are carried
  as rationals. The rounding of an exact arithmetic result to double precision (with an
  unbounded exponent) is not fixed here: every operation takes it as the parameter
  \<open>fl\<close>; a rounded result beyond the largest double is an infinity. The conversion
  of a finite number to its decimal text (\<open>Number::toString\<close>) is the parameter \<open>shw\<close>.
\<close>

datatype jsnum = Fin rat | NaN | PosInf | NegInf

text \<open>The largest finite double, \<open>(2 - 2^-52) * 2^1023\<close>.\<close>

definition max_double :: rat where
  "max_double = 2 ^ 1024 - 2 ^ 971"

definition to_double :: "rat \<Rightarrow> jsnum" where
  "to_double y =
     (if max_double < y then PosInf else if y < - max_double then NegInf else Fin y)"

text \<open>\<open>a / b\<close> on two finite numbers: a zero divisor gives \<open>NaN\<close> or an infinity.\<close>

definition js_div :: "(rat \<Rightarrow> rat) \<Rightarrow> rat \<Rightarrow> rat \<Rightarrow> jsnum" where
  "js_div fl a b =
     (if b = 0 then (if a = 0 then NaN else if 0 < a then PosInf else NegInf)
      else to_double (fl (a / b)))"

text \<open>\<open>x / y\<close> on any two numbers.\<close>

fun js_divide :: "(rat \<Rightarrow> rat) \<Rightarrow> jsnum \<Rightarrow> jsnum \<Rightarrow> jsnum" where
  "js_divide fl (Fin a) (Fin b) = js_div fl a b"
| "js_divide fl (Fin a) PosInf = Fin 0"
| "js_divide fl (Fin a) NegInf = Fin 0"
| "js_divide fl PosInf (Fin b) = (if b < 0 then NegInf else PosInf)"
| "js_divide fl NegInf (Fin b) = (if b < 0 then PosInf else NegInf)"
| "js_divide fl x y = NaN"

text \<open>\<open>x * c\<close> for a finite constant \<open>c\<close>.\<close>

fun js_times :: "(rat \<Rightarrow> rat) \<Rightarrow> jsnum \<Rightarrow> rat \<Rightarrow> jsnum" where
  "js_times fl (Fin x) c = to_double (fl (x * c))"
| "js_times fl NaN c = NaN"
| "js_times fl PosInf c = (if c = 0 then NaN else if 0 < c then PosInf else NegInf)"
| "js_times fl NegInf c = (if c = 0 then NaN else if 0 < c then NegInf else PosInf)"

text \<open>\<open>x > 0\<close> on a number: false for \<open>NaN\<close>.\<close>

definition gt_zero :: "jsnum \<Rightarrow> bool" where
  "gt_zero x = (case x of Fin a \<Rightarrow> 0 < a | PosInf \<Rightarrow> True | NaN \<Rightarrow> False | NegInf \<Rightarrow> False)"

text \<open>\<open>Math.round\<close>: the nearest integer, a tie going up; \<open>NaN\<close> and the infinities stay.\<close>

fun math_round :: "jsnum \<Rightarrow> jsnum" where
  "math_round (Fin x) = Fin (of_int \<lfloor>x + 1 / 2\<rfloor>)"
| "math_round NaN = NaN"
| "math_round PosInf = PosInf"
| "math_round NegInf = NegInf"

text \<open>\<open>Math.floor\<close> of a finite number.\<close>

definition math_floor :: "rat \<Rightarrow> int" where
  "math_floor x = \<lfloor>x\<rfloor>"

text \<open>The text a number has inside a template literal or a JSX child.\<close>

fun js_to_string :: "(rat \<Rightarrow> string) \<Rightarrow> jsnum \<Rightarrow> string" where
  "js_to_string shw (Fin x) = shw x"
| "js_to_string shw NaN = ''NaN''"
| "js_to_string shw PosInf = ''Infinity''"
| "js_to_string shw NegInf = ''-Infinity''"

section \<open>The AI-suggestion relay (the \<open>ai-suggestions\<close> edge function, \<open>src/unnamed/part_004\<close>)\<close>

text \<open>
  What \<open>JSON.parse\<close> gives: the handler reads the body without checking any type, so
  the payload is an arbitrary JSON value. A number is finite, or an infinity when the
  literal is beyond the doubles. An object is the list of its members in the order of
  the text.
\<close>

datatype json =
  JNull | JBool bool | JNum jsnum | JStr string | JArr "json list" | JObj "(string \<times> json) list"

text \<open>
  What the handler's \<open>catch\<close> receives: an error with a known message (thrown by the
  handler, by \<open>req.json()\<close> or by \<open>fetch\<close>), or a \<open>TypeError\<close> raised by the engine,
  whose message is the engine's.
\<close>

datatype failure = Message string | EngineTypeError

text \<open>
  The three conversions of the engine that are not fixed here: the rounding \<open>fl\<close>, the
  text of a finite number, and the number a string converts to (\<open>StringToNumber\<close>).
\<close>

record engine =
  fl_of :: "rat \<Rightarrow> rat"
  shw_of :: "rat \<Rightarrow> string"
  num_of :: "string \<Rightarrow> jsnum"

text \<open>Sequencing: the first exception ends the evaluation.\<close>

definition and_then :: "failure + 'a \<Rightarrow> ('a \<Rightarrow> failure + 'b) \<Rightarrow> failure + 'b" where
  "and_then m f = (case m of Inl e \<Rightarrow> Inl e | Inr x \<Rightarrow> f x)"

fun in_turn :: "(failure + 'a) list \<Rightarrow> failure + 'a list" where
  "in_turn [] = Inr []"
| "in_turn (m # ms) =
     (case m of
        Inl e \<Rightarrow> Inl e
      | Inr x \<Rightarrow> (case in_turn ms of Inl e \<Rightarrow> Inl e | Inr xs \<Rightarrow> Inr (x # xs)))"

text \<open>An own property of a parsed object: of two members with one key the later wins.\<close>

definition own :: "(string \<times> json) list \<Rightarrow> string \<Rightarrow> json option" where
  "own kvs k = map_of (rev kvs) k"

text \<open>The truth value of a value in a condition; \<open>None\<close> is \<open>undefined\<close>.\<close>

definition truthy :: "json option \<Rightarrow> bool" where
  "truthy v =
     (case v of
        None \<Rightarrow> False
      | Some JNull \<Rightarrow> False
      | Some (JBool b) \<Rightarrow> b
      | Some (JNum n) \<Rightarrow> (case n of Fin a \<Rightarrow> a \<noteq> 0 | NaN \<Rightarrow> False | PosInf \<Rightarrow> True | NegInf \<Rightarrow> True)
      | Some (JStr s) \<Rightarrow> s \<noteq> []
      | Some (JArr xs) \<Rightarrow> True
      | Some (JObj kvs) \<Rightarrow> True)"

text \<open>
  \<open>ToString\<close>: an array is the texts of its elements joined by commas, \<open>null\<close> elements
  counting as empty; an object is \<open>[object Object]\<close>, unless it has a member \<open>toString\<close>,
  which is not callable and leaves no way to a primitive value.
\<close>

fun join_comma :: "string list \<Rightarrow> string" where
  "join_comma [] = []"
| "join_comma [s] = s"
| "join_comma (s # t # ts) = s @ '','' @ join_comma (t # ts)"

fun to_string :: "(rat \<Rightarrow> string) \<Rightarrow> json \<Rightarrow> failure + string" where
  "to_string shw JNull = Inr ''null''"
| "to_string shw (JBool b) = Inr (if b then ''true'' else ''false'')"
| "to_string shw (JNum n) = Inr (js_to_string shw n)"
| "to_string shw (JStr s) = Inr s"
| "to_string shw (JArr xs) =
     (case in_turn (map (\<lambda>x. if x = JNull then Inr [] else to_string shw x) xs) of
        Inl e \<Rightarrow> Inl e
      | Inr ss \<Rightarrow> Inr (join_comma ss))"
| "to_string shw (JObj kvs) =
     (if own kvs ''toString'' = None then Inr ''[object Object]'' else Inl EngineTypeError)"

definition show_value :: "engine \<Rightarrow> json option \<Rightarrow> failure + string" where
  "show_value js v = (case v of None \<Rightarrow> Inr ''undefined'' | Some j \<Rightarrow> to_string (shw_of js) j)"

text \<open>\<open>ToNumber\<close>: an array or an object converts through its text.\<close>

definition to_number :: "engine \<Rightarrow> json option \<Rightarrow> failure + jsnum" where
  "to_number js v =
     (case v of
        None \<Rightarrow> Inr NaN
      | Some JNull \<Rightarrow> Inr (Fin 0)
      | Some (JBool b) \<Rightarrow> Inr (Fin (if b then 1 else 0))
      | Some (JNum n) \<Rightarrow> Inr n
      | Some (JStr s) \<Rightarrow> Inr (num_of js s)
      | Some (JArr xs) \<Rightarrow> and_then (to_string (shw_of js) (JArr xs)) (\<lambda>s. Inr (num_of js s))
      | Some (JObj kvs) \<Rightarrow> and_then (to_string (shw_of js) (JObj kvs)) (\<lambda>s. Inr (num_of js s)))"

text \<open>
  \<open>v.k\<close> for the keys the handler reads from an element (\<open>total\<close>, \<open>completed\<close>,
  \<open>category\<close>, \<open>outcome\<close>, \<open>count\<close>): a \<open>TypeError\<close> on \<open>null\<close>, the own property of an
  object, \<open>undefined\<close> on anything else.
\<close>

definition field :: "string \<Rightarrow> json \<Rightarrow> failure + json option" where
  "field k v =
     (case v of
        JNull \<Rightarrow> Inl EngineTypeError
      | JObj kvs \<Rightarrow> Inr (own kvs k)
      | _ \<Rightarrow> Inr None)"

text \<open>\<open>v.length\<close> on a value that is not \<open>null\<close>.\<close>

definition length_of :: "json \<Rightarrow> json option" where
  "length_of v =
     (case v of
        JStr s \<Rightarrow> Some (JNum (Fin (of_nat (length s))))
      | JArr xs \<Rightarrow> Some (JNum (Fin (of_nat (length xs))))
      | JObj kvs \<Rightarrow> own kvs ''length''
      | _ \<Rightarrow> None)"

text \<open>
  \<open>v.forEach(callback)\<close>, the callback appending one line: only an array has a callable
  \<open>forEach\<close>.
\<close>

definition for_each :: "json \<Rightarrow> (json \<Rightarrow> failure + string) \<Rightarrow> failure + string" where
  "for_each v line =
     (case v of
        JArr xs \<Rightarrow> and_then (in_turn (map line xs)) (\<lambda>ls. Inr (concat ls))
      | _ \<Rightarrow> Inl EngineTypeError)"

text \<open>Line 15: the three variables the body is destructured into.\<close>

record payload =
  resourcesByCategory :: "json option"
  interviewOutcomes :: "json option"
  applicationCount :: "json option"

definition destructure :: "json \<Rightarrow> failure + payload" where
  "destructure body =
     (case body of
        JNull \<Rightarrow> Inl EngineTypeError
      | JObj kvs \<Rightarrow>
          Inr \<lparr>resourcesByCategory = own kvs ''resourcesByCategory'',
               interviewOutcomes = own kvs ''interviewOutcomes'',
               applicationCount = own kvs ''applicationCount''\<rparr>
      | _ \<Rightarrow> Inr \<lparr>resourcesByCategory = None, interviewOutcomes = None, applicationCount = None\<rparr>)"

text \<open>
  A request: its HTTP method, and what \<open>await req.json()\<close> gives: the parsed body, or
  the message of the error it throws when the body is not JSON.
\<close>

record request =
  req_method :: string
  req_json :: "string + json"

text \<open>
  What the completion backend does with a call: \<open>fetch\<close> itself throws; the response is
  not \<open>ok\<close> and its text can be read; the response is not \<open>ok\<close> and \<open>response.text()\<close>
  throws; the response is \<open>ok\<close> but \<open>response.json()\<close> or the read of
  \<open>result.choices\<close> throws; or the response is \<open>ok\<close> and
  \<open>result.choices?.[0]?.message?.content\<close> is a string or is missing.
\<close>

datatype upstream =
  FetchThrows string
| NotOk string
| NotOkUnreadable string
| OkUnreadable string
| OkJson "string option"

datatype resp_body = Plain string | SuggestionsJson string | ErrorJson failure

record response =
  status :: nat
  payload_out :: resp_body

text \<open>Line 28: the completion percentage of one element \<open>r\<close>.\<close>

definition percentage :: "engine \<Rightarrow> json \<Rightarrow> failure + jsnum" where
  "percentage js r =
     and_then (field ''total'' r) (\<lambda>t.
     and_then (to_number js t) (\<lambda>nt.
       if gt_zero nt
       then and_then (field ''completed'' r) (\<lambda>c.
            and_then (to_number js c) (\<lambda>nc.
              Inr (math_round (js_times (fl_of js) (js_divide (fl_of js) nc nt) 100))))
       else Inr (Fin 0)))"

text \<open>Lines 28-29: the line of one element.\<close>

definition resource_line :: "engine \<Rightarrow> json \<Rightarrow> failure + string" where
  "resource_line js r =
     and_then (percentage js r) (\<lambda>pct.
     and_then (field ''category'' r) (\<lambda>cat.
     and_then (show_value js cat) (\<lambda>cat_text.
     and_then (field ''completed'' r) (\<lambda>c.
     and_then (show_value js c) (\<lambda>c_text.
     and_then (field ''total'' r) (\<lambda>t.
     and_then (show_value js t) (\<lambda>t_text.
       Inr (''- '' @ cat_text @ '': '' @ c_text @ ''/'' @ t_text
              @ '' completed ('' @ js_to_string (shw_of js) pct @ ''%)\<newline>''))))))))"

text \<open>Line 37: the line of one outcome.\<close>

definition outcome_line :: "engine \<Rightarrow> json \<Rightarrow> failure + string" where
  "outcome_line js oc =
     and_then (field ''outcome'' oc) (\<lambda>name.
     and_then (show_value js name) (\<lambda>name_text.
     and_then (field ''count'' oc) (\<lambda>n.
     and_then (show_value js n) (\<lambda>n_text.
       Inr (''- '' @ name_text @ '': '' @ n_text @ '' interviews\<newline>'')))))"

text \<open>
  Lines 25-32 and 34-40: \<open>if (v && v.length > 0)\<close>, then the title, one line for each
  element and an empty line.
\<close>

definition list_block :: "engine \<Rightarrow> string \<Rightarrow> (json \<Rightarrow> failure + string) \<Rightarrow> json option \<Rightarrow> failure + string" where
  "list_block js title line v =
     (case v of
        None \<Rightarrow> Inr []
      | Some j \<Rightarrow>
          if truthy (Some j)
          then and_then (to_number js (length_of j)) (\<lambda>n.
                 if gt_zero n
                 then and_then (for_each j line) (\<lambda>lines. Inr (title @ lines @ ''\<newline>''))
                 else Inr [])
          else Inr [])"

definition resources_block :: "engine \<Rightarrow> json option \<Rightarrow> failure + string" where
  "resources_block js v = list_block js ''**Study Resources:**\<newline>'' (resource_line js) v"

definition outcomes_block :: "engine \<Rightarrow> json option \<Rightarrow> failure + string" where
  "outcomes_block js v = list_block js ''**Interview Outcomes:**\<newline>'' (outcome_line js) v"

text \<open>
  Lines 42-44: \<open>if (applicationCount)\<close>: an absent field and the number 0 are both
  falsy.
\<close>

definition applications_block :: "engine \<Rightarrow> json option \<Rightarrow> failure + string" where
  "applications_block js v =
     (if truthy v
      then and_then (show_value js v) (\<lambda>n_text.
             Inr (''**Total Applications:** '' @ n_text @ ''\<newline>\<newline>''))
      else Inr [])"

text \<open>Lines 23-44: the context block.\<close>

definition build_context :: "engine \<Rightarrow> payload \<Rightarrow> failure + string" where
  "build_context js p =
     and_then (resources_block js (resourcesByCategory p)) (\<lambda>a.
     and_then (outcomes_block js (interviewOutcomes p)) (\<lambda>b.
     and_then (applications_block js (applicationCount p)) (\<lambda>c.
       Inr (''Based on the user's interview preparation data:\<newline>\<newline>'' @ a @ b @ c))))"

text \<open>Line 66: the user message forwarded to the backend.\<close>

definition user_message :: "engine \<Rightarrow> payload \<Rightarrow> failure + string" where
  "user_message js p =
     and_then (build_context js p) (\<lambda>ctx.
       Inr (ctx @ ''Please provide personalized suggestions for my interview preparation based on this data.''))"

text \<open>Lines 88-94: the \<open>catch\<close> branch answers 500 with the error's message.\<close>

definition error_response :: "failure \<Rightarrow> response" where
  "error_response e = \<lparr>status = 500, payload_out = ErrorJson e\<rparr>"

text \<open>Line 81: the fallback replaces a missing or empty content.\<close>

definition suggestions_of :: "string option \<Rightarrow> string" where
  "suggestions_of content =
     (case content of
        None \<Rightarrow> ''Unable to generate suggestions at this time.''
      | Some c \<Rightarrow> if c = [] then ''Unable to generate suggestions at this time.'' else c)"

text \<open>
  Lines 17-86: the handler after the body is read. \<open>apiKey\<close> is
  \<open>Deno.env.get('LOVABLE_API_KEY')\<close> (\<open>None\<close> when unset; \<open>!apiKey\<close> also holds for the
  empty string), \<open>backend\<close> maps the bearer key and the user message to what the
  completion service does.
\<close>

definition respond :: "engine \<Rightarrow> string option \<Rightarrow> (string \<Rightarrow> string \<Rightarrow> upstream) \<Rightarrow> payload \<Rightarrow> response" where
  "respond js apiKey backend p =
     (case apiKey of
        None \<Rightarrow> error_response (Message ''LOVABLE_API_KEY not configured'')
      | Some k \<Rightarrow>
          if k = [] then error_response (Message ''LOVABLE_API_KEY not configured'')
          else
            (case user_message js p of
               Inl e \<Rightarrow> error_response e
             | Inr m \<Rightarrow>
                 (case backend k m of
                    FetchThrows msg \<Rightarrow> error_response (Message msg)
                  | NotOk body_text \<Rightarrow> error_response (Message ''Failed to get AI response'')
                  | NotOkUnreadable msg \<Rightarrow> error_response (Message msg)
                  | OkUnreadable msg \<Rightarrow> error_response (Message msg)
                  | OkJson content \<Rightarrow>
                      \<lparr>status = 200, payload_out = SuggestionsJson (suggestions_of content)\<rparr>)))"

text \<open>Lines 8-96: the handler.\<close>

definition serve ::
  "engine \<Rightarrow> string option \<Rightarrow> (string \<Rightarrow> string \<Rightarrow> upstream) \<Rightarrow> request \<Rightarrow> response" where
  "serve js apiKey backend req =
     (if req_method req = ''OPTIONS'' then \<lparr>status = 200, payload_out = Plain ''ok''\<rparr>
      else
        case req_json req of
          Inl msg \<Rightarrow> error_response (Message msg)
        | Inr body \<Rightarrow>
            (case destructure body of
               Inl e \<Rightarrow> error_response e
             | Inr p \<Rightarrow> respond js apiKey backend p))"

section \<open>Practice: the test history score\<close>

record PracticeTest =
  test_title :: string
  test_category :: string
  total_questions :: int
  correct_answers :: int

text \<open>Practice.tsx line 220: \<open>Math.round((correct_answers / total_questions) * 100)\<close>.\<close>

definition score_percent :: "(rat \<Rightarrow> rat) \<Rightarrow> PracticeTest \<Rightarrow> jsnum" where
  "score_percent fl t =
     math_round (js_times fl (js_div fl (of_int (correct_answers t)) (of_int (total_questions t))) 100)"

text \<open>The text of the score span: the number followed by a percent sign.\<close>

definition score_text :: "(rat \<Rightarrow> rat) \<Rightarrow> (rat \<Rightarrow> string) \<Rightarrow> PracticeTest \<Rightarrow> string" where
  "score_text fl shw t = js_to_string shw (score_percent fl t) @ ''%''"

section \<open>The store: tables, row-level policies, the update trigger\<close>

text \<open>
  The six tables of owned entities of the migration (\<open>profiles\<close> and the public
  \<open>past_questions\<close> are left out). A row carries its primary key, its owner column
  \<open>user_id\<close>, its \<open>updated_at\<close> timestamp and the table's other columns
  (\<open>practice_tests\<close> has no \<open>updated_at\<close> column: the field is never written there).
  Identifiers stand for UUIDs, timestamps are numbers.
\<close>

datatype table = Resources | RoadmapItems | Applications | Interviews | Contacts | PracticeTests

datatype command = Select | Insert | Update | Delete

record 'c row =
  row_id :: nat
  user_id :: nat
  updated_at :: nat
  cols :: 'c

text \<open>
  Lines 112-160: row-level security is enabled on every table, and each policy has the
  expression \<open>auth.uid() = user_id\<close> (\<open>WITH CHECK\<close> for an insert, \<open>USING\<close> otherwise).
  \<open>policies t\<close> lists the commands table \<open>t\<close> has a policy for; \<open>practice_tests\<close> has
  none for \<open>DELETE\<close>.
\<close>

definition policies :: "table \<Rightarrow> command list" where
  "policies t =
     (case t of
        Resources \<Rightarrow> [Select, Insert, Update, Delete]
      | RoadmapItems \<Rightarrow> [Select, Insert, Update, Delete]
      | Applications \<Rightarrow> [Select, Insert, Update, Delete]
      | Interviews \<Rightarrow> [Select, Insert, Update, Delete]
      | Contacts \<Rightarrow> [Select, Insert, Update, Delete]
      | PracticeTests \<Rightarrow> [Select, Insert, Update])"

text \<open>
  A command on a row passes when the table has a policy for the command and the
  policy's expression holds: \<open>uid\<close> is \<open>auth.uid()\<close>, \<open>None\<close> without a session, and a
  comparison with SQL \<open>NULL\<close> is not true.
\<close>

definition permitted :: "nat option \<Rightarrow> table \<Rightarrow> command \<Rightarrow> nat \<Rightarrow> bool" where
  "permitted uid t c owner = (c \<in> set (policies t) \<and> uid = Some owner)"

text \<open>Lines 166-180: the \<open>BEFORE UPDATE\<close> trigger that sets \<open>updated_at\<close> to \<open>now()\<close>.\<close>

definition has_update_trigger :: "table \<Rightarrow> bool" where
  "has_update_trigger t =
     (case t of
        Resources \<Rightarrow> True
      | RoadmapItems \<Rightarrow> True
      | Applications \<Rightarrow> True
      | Interviews \<Rightarrow> True
      | Contacts \<Rightarrow> True
      | PracticeTests \<Rightarrow> False)"

definition touch :: "nat \<Rightarrow> table \<Rightarrow> 'c row \<Rightarrow> 'c row" where
  "touch now t r = (if has_update_trigger t then r\<lparr>updated_at := now\<rparr> else r)"

datatype db_error = RlsViolation | UniqueViolation | ForeignKeyViolation

text \<open>
  \<open>INSERT\<close> of the row \<open>r\<close> (its defaults filled in) into the rows of table \<open>t\<close>: the
  policy's check comes first, then the primary key.
\<close>

definition insert_into :: "table \<Rightarrow> nat option \<Rightarrow> 'c row \<Rightarrow> 'c row list \<Rightarrow> db_error + 'c row list" where
  "insert_into t uid r rows =
     (if \<not> permitted uid t Insert (user_id r) then Inl RlsViolation
      else if row_id r \<in> set (map row_id rows) then Inl UniqueViolation
      else Inr (rows @ [r]))"

text \<open>
  \<open>UPDATE\<close> and \<open>DELETE\<close> with the filter \<open>id = i\<close> act on the rows the filter matches
  and the policies let the caller see; a row that does not pass is skipped without an
  error.
\<close>

definition targeted :: "nat option \<Rightarrow> table \<Rightarrow> command \<Rightarrow> nat \<Rightarrow> 'c row \<Rightarrow> bool" where
  "targeted uid t c i r =
     (row_id r = i \<and> permitted uid t Select (user_id r) \<and> permitted uid t c (user_id r))"

definition delete_from :: "table \<Rightarrow> nat option \<Rightarrow> nat \<Rightarrow> 'c row list \<Rightarrow> db_error + 'c row list" where
  "delete_from t uid i rows = Inr (filter (\<lambda>r. \<not> targeted uid t Delete i r) rows)"

text \<open>
  The \<open>SET\<close> clause of an update: a new owner, when the caller sends \<open>user_id\<close>, and the
  change of the other columns.
\<close>

record 'c assignment =
  set_user_id :: "nat option"
  set_cols :: "'c \<Rightarrow> 'c"

definition apply_set :: "'c assignment \<Rightarrow> 'c row \<Rightarrow> 'c row" where
  "apply_set a r =
     r\<lparr>user_id := (case set_user_id a of None \<Rightarrow> user_id r | Some u \<Rightarrow> u),
       cols := set_cols a (cols r)\<rparr>"

text \<open>
  An update policy without \<open>WITH CHECK\<close> applies its \<open>USING\<close> expression to the new row
  too: a new row that fails it aborts the statement.
\<close>

definition update_in ::
  "table \<Rightarrow> nat \<Rightarrow> nat option \<Rightarrow> nat \<Rightarrow> 'c assignment \<Rightarrow> 'c row list \<Rightarrow> db_error + 'c row list" where
  "update_in t now uid i a rows =
     (if list_ex (\<lambda>r. targeted uid t Update i r
            \<and> \<not> permitted uid t Update (user_id (apply_set a r))) rows
      then Inl RlsViolation
      else Inr (map (\<lambda>r. if targeted uid t Update i r then touch now t (apply_set a r) else r) rows))"

definition select_from :: "table \<Rightarrow> nat option \<Rightarrow> 'c row list \<Rightarrow> 'c row list" where
  "select_from t uid rows = filter (\<lambda>r. permitted uid t Select (user_id r)) rows"

subsection \<open>The columns of each table\<close>

record resource_cols =
  res_title :: string
  res_url :: "string option"
  res_category :: string
  resource_type :: string
  res_notes :: "string option"
  is_completed :: bool

record roadmap_cols =
  rm_title :: string
  rm_description :: "string option"
  target_date :: "string option"
  rm_status :: string
  priority :: string
  week_number :: "int option"

record application_cols =
  app_company :: string
  app_role :: string
  app_status :: string
  applied_date :: string
  app_notes :: "string option"
  job_url :: "string option"
  salary_range :: "string option"
  location :: "string option"

text \<open>\<open>interview_date\<close> is the instant of the \<open>timestamptz\<close> column, in epoch milliseconds.\<close>

record interview_cols =
  application_id :: "nat option"
  int_company :: string
  int_role :: string
  interview_date :: int
  interview_type :: string
  outcome_col :: "string option"
  int_notes :: "string option"
  feedback :: "string option"

record contact_cols =
  con_name :: string
  con_company :: string
  con_role :: "string option"
  email :: "string option"
  phone :: "string option"
  linkedin_url :: "string option"
  con_notes :: "string option"

record db =
  resources :: "resource_cols row list"
  roadmap_items :: "roadmap_cols row list"
  applications :: "application_cols row list"
  interviews :: "interview_cols row list"
  contacts :: "contact_cols row list"
  practice_tests :: "PracticeTest row list"

text \<open>
  Line 59: \<open>application_id UUID REFERENCES public.applications(id) ON DELETE SET NULL\<close>.
  The referential action is an update of the referencing interview rows, so the
  \<open>BEFORE UPDATE\<close> trigger of \<open>interviews\<close> fires on each of them; it is not subject to
  the row-level policies.
\<close>

definition on_delete_set_null :: "nat \<Rightarrow> nat list \<Rightarrow> interview_cols row \<Rightarrow> interview_cols row" where
  "on_delete_set_null now gone r =
     (case application_id (cols r) of
        None \<Rightarrow> r
      | Some a \<Rightarrow>
          if a \<in> set gone then touch now Interviews (r\<lparr>cols := (cols r)\<lparr>application_id := None\<rparr>\<rparr>)
          else r)"

definition delete_application :: "nat \<Rightarrow> nat option \<Rightarrow> nat \<Rightarrow> db \<Rightarrow> db_error + db" where
  "delete_application now uid i d =
     (case delete_from Applications uid i (applications d) of
        Inl e \<Rightarrow> Inl e
      | Inr rows \<Rightarrow>
          Inr (d\<lparr>applications := rows,
                 interviews :=
                   map (on_delete_set_null now
                          (map row_id (filter (targeted uid Applications Delete i) (applications d))))
                       (interviews d)\<rparr>))"

text \<open>An interview may only reference an application that exists.\<close>

definition insert_interview :: "nat option \<Rightarrow> interview_cols row \<Rightarrow> db \<Rightarrow> db_error + db" where
  "insert_interview uid r d =
     (case insert_into Interviews uid r (interviews d) of
        Inl e \<Rightarrow> Inl e
      | Inr rows \<Rightarrow>
          (case application_id (cols r) of
             None \<Rightarrow> Inr (d\<lparr>interviews := rows\<rparr>)
           | Some a \<Rightarrow>
               if a \<in> set (map row_id (applications d)) then Inr (d\<lparr>interviews := rows\<rparr>)
               else Inl ForeignKeyViolation))"

section \<open>The pages\<close>

datatype toast = ToastError string | ToastSuccess string | NoToast

subsection \<open>Resources (\<open>src/unnamed/part_001\<close>)\<close>

record resource_form =
  f_title :: string
  f_url :: string
  f_category :: string
  f_type :: string
  f_notes :: string

text \<open>\<open>x || null\<close> on a form string: the empty string becomes \<open>null\<close>.\<close>

definition or_null :: "string \<Rightarrow> string option" where
  "or_null s = (if s = [] then None else Some s)"

text \<open>
  Lines 56-76. \<open>user\<close> is \<open>user!.id\<close>, the identity of the session the request is sent
  with; \<open>new_id\<close> and \<open>now\<close> are the defaults \<open>gen_random_uuid()\<close> and \<open>now()\<close> the store
  fills in, and \<open>is_completed\<close> defaults to false.
\<close>

definition handleAddResource :: "nat \<Rightarrow> nat \<Rightarrow> nat \<Rightarrow> resource_form \<Rightarrow> db \<Rightarrow> toast \<times> db" where
  "handleAddResource user new_id now form d =
     (case insert_into Resources (Some user)
             \<lparr>row_id = new_id, user_id = user, updated_at = now,
              cols = \<lparr>res_title = f_title form, res_url = or_null (f_url form),
                      res_category = f_category form, resource_type = f_type form,
                      res_notes = or_null (f_notes form), is_completed = False\<rparr>\<rparr>
             (resources d) of
        Inl e \<Rightarrow> (ToastError ''Failed to add resource'', d)
      | Inr rows \<Rightarrow> (ToastSuccess ''Resource added!'', d\<lparr>resources := rows\<rparr>))"

text \<open>Lines 78-89.\<close>

definition toggleComplete :: "nat \<Rightarrow> nat \<Rightarrow> nat \<Rightarrow> bool \<Rightarrow> db \<Rightarrow> toast \<times> db" where
  "toggleComplete user now i done_before d =
     (case update_in Resources now (Some user) i
             \<lparr>set_user_id = None, set_cols = (\<lambda>c. c\<lparr>is_completed := \<not> done_before\<rparr>)\<rparr>
             (resources d) of
        Inl e \<Rightarrow> (ToastError ''Failed to update'', d)
      | Inr rows \<Rightarrow> (NoToast, d\<lparr>resources := rows\<rparr>))"

text \<open>Lines 91-99.\<close>

definition deleteResource :: "nat \<Rightarrow> nat \<Rightarrow> db \<Rightarrow> toast \<times> db" where
  "deleteResource user i d =
     (case delete_from Resources (Some user) i (resources d) of
        Inl e \<Rightarrow> (ToastError ''Failed to delete'', d)
      | Inr rows \<Rightarrow> (ToastSuccess ''Resource deleted'', d\<lparr>resources := rows\<rparr>))"

subsection \<open>Applications (\<open>src/src/pages/Applications.tsx\<close>)\<close>

text \<open>Applications.tsx lines 99-107.\<close>

definition deleteApplication :: "nat \<Rightarrow> nat \<Rightarrow> nat \<Rightarrow> db \<Rightarrow> toast \<times> db" where
  "deleteApplication user now i d =
     (case delete_application now (Some user) i d of
        Inl e \<Rightarrow> (ToastError ''Failed to delete'', d)
      | Inr d' \<Rightarrow> (ToastSuccess ''Application deleted'', d'))"

subsection \<open>Interviews (\<open>src/unnamed/part_002\<close>)\<close>

text \<open>
  \<open>isFuture\<close> and \<open>isPast\<close> of date-fns compare the date with \<open>Date.now()\<close>, strictly
  on both sides; \<open>now\<close> is the clock reading of the call.
\<close>

definition isFuture :: "int \<Rightarrow> int \<Rightarrow> bool" where
  "isFuture now d = (now < d)"

definition isPast :: "int \<Rightarrow> int \<Rightarrow> bool" where
  "isPast now d = (d < now)"

text \<open>
  Lines 91-92: the two views. Each call of \<open>isFuture\<close> and \<open>isPast\<close> reads the clock
  itself: \<open>clock n\<close> is the reading of the \<open>n\<close>-th call of the render, so the first pass
  uses the readings \<open>0\<close> to \<open>length rows - 1\<close> and the second pass the next
  \<open>length rows\<close> readings.
\<close>

definition upcomingInterviews :: "(nat \<Rightarrow> int) \<Rightarrow> interview_cols row list \<Rightarrow> interview_cols row list" where
  "upcomingInterviews clock rows =
     map snd (filter (\<lambda>(n, i). isFuture (clock n) (interview_date (cols i))) (enumerate 0 rows))"

definition pastInterviews :: "(nat \<Rightarrow> int) \<Rightarrow> interview_cols row list \<Rightarrow> interview_cols row list" where
  "pastInterviews clock rows =
     map snd (filter (\<lambda>(n, i). isPast (clock (length rows + n)) (interview_date (cols i)))
                (enumerate 0 rows))"

subsection \<open>Roadmap (\<open>src/src/pages/Roadmap.tsx\<close>)\<close>

text \<open>
  The order of two \<open>TEXT\<close> values, character by character on the character codes (the
  database's collation agrees with it on lower-case ASCII words such as the three
  priorities).
\<close>

fun text_lt :: "string \<Rightarrow> string \<Rightarrow> bool" where
  "text_lt [] [] = False"
| "text_lt [] (y # ys) = True"
| "text_lt (x # xs) [] = False"
| "text_lt (x # xs) (y # ys) =
     ((of_char x :: nat) < of_char y \<or> (x = y \<and> text_lt xs ys))"

text \<open>\<open>ORDER BY week_number ASC\<close>: a \<open>NULL\<close> week sorts after every number.\<close>

definition week_lt :: "int option \<Rightarrow> int option \<Rightarrow> bool" where
  "week_lt a b =
     (case a of
        None \<Rightarrow> False
      | Some x \<Rightarrow> (case b of None \<Rightarrow> True | Some y \<Rightarrow> x < y))"

text \<open>
  \<open>ORDER BY week_number ASC, priority DESC\<close>: \<open>a\<close> may stand before \<open>b\<close>. \<open>priority\<close> is
  a \<open>TEXT\<close> column.
\<close>

definition roadmap_le :: "roadmap_cols row \<Rightarrow> roadmap_cols row \<Rightarrow> bool" where
  "roadmap_le a b =
     (week_lt (week_number (cols a)) (week_number (cols b))
      \<or> (week_number (cols a) = week_number (cols b)
          \<and> \<not> text_lt (priority (cols a)) (priority (cols b))))"

text \<open>
  The store's sort, as an insertion sort (the store does not fix the order of rows that
  compare equal; this one keeps them in table order).
\<close>

fun insert_by :: "('a \<Rightarrow> 'a \<Rightarrow> bool) \<Rightarrow> 'a \<Rightarrow> 'a list \<Rightarrow> 'a list" where
  "insert_by le x [] = [x]"
| "insert_by le x (y # ys) = (if le x y then x # y # ys else y # insert_by le x ys)"

definition order_by :: "('a \<Rightarrow> 'a \<Rightarrow> bool) \<Rightarrow> 'a list \<Rightarrow> 'a list" where
  "order_by le xs = foldr (insert_by le) xs []"

text \<open>Roadmap.tsx lines 40-47: the rows the query of \<open>fetchItems\<close> returns.\<close>

definition fetchItems :: "nat \<Rightarrow> roadmap_cols row list \<Rightarrow> roadmap_cols row list" where
  "fetchItems user rows =
     order_by roadmap_le
       (filter (\<lambda>r. user_id r = user) (select_from RoadmapItems (Some user) rows))"

section \<open>Counting into a JavaScript object\<close>

text \<open>
  \<open>counts[k] = (counts[k] || 0) + 1\<close> on an object literal \<open>{}\<close>. The object is the list
  of its own properties in creation order. A key that names a member of
  \<open>Object.prototype\<close> reads that member instead of \<open>undefined\<close>, so the sum is a string
  and not a number; an assignment to \<open>__proto__\<close> with a string creates no property.
\<close>

datatype tally = Count nat | NotANumber

definition prototype_names :: "string list" where
  "prototype_names =
     [''constructor'', ''hasOwnProperty'', ''isPrototypeOf'', ''propertyIsEnumerable'',
      ''toLocaleString'', ''toString'', ''valueOf'', ''__proto__'', ''__defineGetter__'',
      ''__defineSetter__'', ''__lookupGetter__'', ''__lookupSetter__'']"

fun put :: "string \<Rightarrow> tally \<Rightarrow> (string \<times> tally) list \<Rightarrow> (string \<times> tally) list" where
  "put k v [] = [(k, v)]"
| "put k v ((k', v') # kvs) = (if k = k' then (k, v) # kvs else (k', v') # put k v kvs)"

definition plus_one :: "(string \<times> tally) list \<Rightarrow> string \<Rightarrow> tally" where
  "plus_one obj k =
     (case map_of obj k of
        Some (Count n) \<Rightarrow> Count (n + 1)
      | Some NotANumber \<Rightarrow> NotANumber
      | None \<Rightarrow> if k \<in> set prototype_names then NotANumber else Count 1)"

definition tally_key :: "(string \<times> tally) list \<Rightarrow> string \<Rightarrow> (string \<times> tally) list" where
  "tally_key obj k = (if k = ''__proto__'' then obj else put k (plus_one obj k) obj)"

text \<open>
  \<open>Object.entries\<close>: the keys that are array indices (canonical decimal numerals below
  \<open>2^32 - 1\<close>) come first, in ascending order, then the others in creation order.
\<close>

definition index_value :: "string \<Rightarrow> nat" where
  "index_value k = foldl (\<lambda>a c. 10 * a + (of_char c - 48)) 0 k"

definition is_array_index :: "string \<Rightarrow> bool" where
  "is_array_index k =
     (k \<noteq> [] \<and> list_all (\<lambda>c. 48 \<le> (of_char c :: nat) \<and> (of_char c :: nat) \<le> 57) k
      \<and> (k = ''0'' \<or> hd k \<noteq> CHR ''0'') \<and> index_value k < 4294967295)"

definition entries :: "(string \<times> 'v) list \<Rightarrow> (string \<times> 'v) list" where
  "entries obj =
     sort_key (\<lambda>kv. index_value (fst kv)) (filter (\<lambda>kv. is_array_index (fst kv)) obj)
       @ filter (\<lambda>kv. \<not> is_array_index (fst kv)) obj"

section \<open>Analytics (second component of \<open>src/src/pages/Roadmap.tsx\<close>)\<close>

text \<open>Roadmap.tsx (Analytics) line 323: \<open>i.outcome || 'Pending'\<close>.\<close>

definition outcome_or_pending :: "string option \<Rightarrow> string" where
  "outcome_or_pending oc =
     (case oc of None \<Rightarrow> ''Pending'' | Some s \<Rightarrow> if s = [] then ''Pending'' else s)"

text \<open>Lines 321-325: the object \<open>outcomeCounts\<close> after the loop over the fetched outcomes.\<close>

definition outcomeCounts :: "string option list \<Rightarrow> (string \<times> tally) list" where
  "outcomeCounts outcomes = foldl (\<lambda>obj oc. tally_key obj (outcome_or_pending oc)) [] outcomes"

text \<open>Line 326: the list \<open>interviewOutcomes\<close> of the chart.\<close>

definition outcome_entries :: "string option list \<Rightarrow> (string \<times> tally) list" where
  "outcome_entries outcomes = entries (outcomeCounts outcomes)"


text \<open>
  Lines 328-332: the weekly progress. \<open>rnd n\<close> is what the \<open>n\<close>-th call of
  \<open>Math.random()\<close> of the run returns, a number in \<open>[0, 1)\<close>.
\<close>

definition progressOverTime :: "(rat \<Rightarrow> rat) \<Rightarrow> (nat \<Rightarrow> rat) \<Rightarrow> (string \<times> int) list" where
  "progressOverTime fl rnd =
     map (\<lambda>(n, week). (week, math_floor (fl (rnd n * 10)) + 1))
       (enumerate 0 [''W1'', ''W2'', ''W3'', ''W4''])"

text \<open>
  The part of \<open>fetchAnalytics\<close> (lines 289-339) that the outcome chart and the weekly
  chart show, from the rows the four queries returned: the outcome column of the
  interviews, and the roadmap rows (status and creation time), which the function
  fetches and does not read. The month and category reductions are not modelled.
\<close>

record AnalyticsData =
  interviewOutcomes_of :: "(string \<times> tally) list"
  progressOverTime_of :: "(string \<times> int) list"

definition fetchAnalytics ::
  "(rat \<Rightarrow> rat) \<Rightarrow> (nat \<Rightarrow> rat) \<Rightarrow> string option list \<Rightarrow> (string \<times> nat) list \<Rightarrow> AnalyticsData" where
  "fetchAnalytics fl rnd interview_rows roadmap_rows =
     \<lparr>interviewOutcomes_of = outcome_entries interview_rows,
      progressOverTime_of = progressOverTime fl rnd\<rparr>"

section \<open>Dashboard (second component of \<open>src/src/pages/Practice.tsx\<close>)\<close>

record DashboardStats =
  totalResources :: nat
  completedResources :: nat
  totalApplications :: nat
  upcomingInterviewsCount :: nat
  totalContacts :: nat
  roadmapProgress :: jsnum
  applicationsByStatus :: "(string \<times> tally) list"
  weeklyProgress :: "(string \<times> int) list"

text \<open>
  Practice.tsx (Dashboard) lines 272-328, from the rows the five queries returned: the
  \<open>is_completed\<close> column of the resources, the \<open>status\<close> column of the applications, the
  upcoming interviews, the contacts, and the \<open>status\<close> column of the roadmap items.
\<close>

definition fetchStats ::
  "(rat \<Rightarrow> rat) \<Rightarrow> (nat \<Rightarrow> rat) \<Rightarrow> bool list \<Rightarrow> string list \<Rightarrow> 'i list \<Rightarrow> 'k list \<Rightarrow> string list
     \<Rightarrow> DashboardStats" where
  "fetchStats fl rnd res apps ivs cons roadmapItems =
     \<lparr>totalResources = length res,
      completedResources = length (filter (\<lambda>r. r) res),
      totalApplications = length apps,
      upcomingInterviewsCount = length ivs,
      totalContacts = length cons,
      roadmapProgress =
        (if 0 < length roadmapItems
         then math_round (js_times fl
                (js_div fl (of_nat (length (filter (\<lambda>s. s = ''completed'') roadmapItems)))
                   (of_nat (length roadmapItems))) 100)
         else Fin 0),
      applicationsByStatus = entries (foldl tally_key [] apps),
      weeklyProgress =
        map (\<lambda>(n, day). (day, math_floor (fl (rnd n * 5))))
          (enumerate 0 [''Mon'', ''Tue'', ''Wed'', ''Thu'', ''Fri'', ''Sat'', ''Sun''])\<rparr>"

section \<open>Sample data\<close>







text \<open>A clock that reads 900 during the first pass over two rows and 1100 afterwards.\<close>

definition advancing_clock :: "nat \<Rightarrow> int" where
  "advancing_clock n = (if n < 2 then 900 else 1100)"

text \<open>Rows and a database for the examples: user 2 owns resource 7; user 1 owns
  application 5, interview 9 (at time 1000, for application 5) and interview 10 (at time
  2000).\<close>

definition sample_form :: resource_form where
  "sample_form = \<lparr>f_title = ''Neetcode 150'', f_url = [], f_category = ''DSA'',
                   f_type = ''course'', f_notes = []\<rparr>"

definition resource_of :: "nat \<Rightarrow> nat \<Rightarrow> resource_cols row" where
  "resource_of i owner =
     \<lparr>row_id = i, user_id = owner, updated_at = 100,
      cols = \<lparr>res_title = ''Graphs'', res_url = None, res_category = ''DSA'',
              resource_type = ''article'', res_notes = None, is_completed = False\<rparr>\<rparr>"

definition application_of :: "nat \<Rightarrow> nat \<Rightarrow> application_cols row" where
  "application_of i owner =
     \<lparr>row_id = i, user_id = owner, updated_at = 100,
      cols = \<lparr>app_company = ''Acme'', app_role = ''Engineer'', app_status = ''Applied'',
              applied_date = ''2025-01-10'', app_notes = None, job_url = None,
              salary_range = None, location = None\<rparr>\<rparr>"

definition interview_of :: "nat \<Rightarrow> nat \<Rightarrow> nat option \<Rightarrow> int \<Rightarrow> interview_cols row" where
  "interview_of i owner app when_ms =
     \<lparr>row_id = i, user_id = owner, updated_at = 100,
      cols = \<lparr>application_id = app, int_company = ''Acme'', int_role = ''Engineer'',
              interview_date = when_ms, interview_type = ''Technical'', outcome_col = None,
              int_notes = None, feedback = None\<rparr>\<rparr>"

definition sample_db :: db where
  "sample_db =
     \<lparr>resources = [resource_of 7 2],
      roadmap_items = [],
      applications = [application_of 5 1],
      interviews = [interview_of 9 1 (Some 5) 1000, interview_of 10 1 None 2000],
      contacts = [],
      practice_tests = []\<rparr>"


definition roadmap_of :: "nat \<Rightarrow> nat \<Rightarrow> int option \<Rightarrow> string \<Rightarrow> roadmap_cols row" where
  "roadmap_of i owner week p =
     \<lparr>row_id = i, user_id = owner, updated_at = 100,
      cols = \<lparr>rm_title = ''Arrays'', rm_description = None, target_date = None,
              rm_status = ''pending'', priority = p, week_number = week\<rparr>\<rparr>"

definition sample_roadmap :: "roadmap_cols row list" where
  "sample_roadmap =
     [roadmap_of 1 1 (Some 2) ''high'', roadmap_of 2 1 (Some 1) ''high'',
      roadmap_of 3 2 (Some 1) ''high'', roadmap_of 4 1 (Some 1) ''medium'',
      roadmap_of 5 1 None ''low'', roadmap_of 6 1 (Some 1) ''low'']"

section \<open>Properties of the relay\<close>

lemma and_then_Inr [simp]: "and_then (Inr x) f = f x"
  by (simp add: and_then_def)

lemma and_then_Inl [simp]: "and_then (Inl e) f = Inl e"
  by (simp add: and_then_def)

lemma own_snoc: "own (kvs @ [(k, v)]) k' = (if k' = k then Some v else own kvs k')"
  by (simp add: own_def)

lemma own_without: "own (filter (\<lambda>kv. fst kv \<noteq> k) kvs) k' = (if k' = k then None else own kvs k')"
proof -
  have "map_of (filter (\<lambda>kv. fst kv \<noteq> k) xs) k' = (if k' = k then None else map_of xs k')"
    for xs :: "(string \<times> json) list"
    by (induction xs) auto
  from this [of "rev kvs"] show ?thesis by (simp add: own_def rev_filter)
qed



lemma applications_block_zero: "applications_block js (Some (JNum (Fin 0))) = Inr []"
  by (simp add: applications_block_def truthy_def)

lemma applications_block_absent: "applications_block js None = Inr []"
  by (simp add: applications_block_def truthy_def)

lemma build_context_zero_count:
  "build_context js (p\<lparr>applicationCount := Some (JNum (Fin 0))\<rparr>)
     = build_context js (p\<lparr>applicationCount := None\<rparr>)"
  by (simp add: build_context_def applications_block_zero applications_block_absent)



lemma respond_cong_context:
  assumes "build_context js p = build_context js q"
  shows "respond js apiKey backend p = respond js apiKey backend q"
  using assms by (simp add: respond_def user_message_def split: option.split)

















text \<open>
  C2, at the input on which the code departs from it. A practice test with
  \<open>total_questions = 0\<close> (the column's default) and no correct answer has the score
  \<open>NaN\<close>, shown as the text \<open>NaN%\<close>, and with a positive \<open>correct_answers\<close> the score is
  \<open>Infinity\<close>: the test history divides without the guard that the relay has, where a
  category with total 0 gets the percentage 0.
\<close>

theorem practice_score_zero_total:
  "score_percent fl \<lparr>test_title = t, test_category = c, total_questions = 0, correct_answers = 0\<rparr>
     = NaN
   \<and> score_text fl shw
       \<lparr>test_title = t, test_category = c, total_questions = 0, correct_answers = 0\<rparr> = ''NaN%''
   \<and> score_text fl shw
       \<lparr>test_title = t, test_category = c, total_questions = 0, correct_answers = 3\<rparr>
     = ''Infinity%''
   \<and> percentage js (JObj [(''category'', cat), (''total'', JNum (Fin 0)), (''completed'', n)])
     = Inr (Fin 0)"
  by (simp add: score_text_def score_percent_def js_div_def percentage_def field_def own_def
      to_number_def gt_zero_def)




text \<open>
  C10. With \<open>applicationCount\<close> 0 the block of the Total Applications line is empty, as
  it is with the field absent: the context forwarded to the backend, and with it the
  response, is the same for both payloads, and for a body with the member
  \<open>applicationCount: 0\<close> and the same body without that member.
\<close>

theorem relay_zero_count_as_absent:
  "applications_block js (Some (JNum (Fin 0))) = Inr []
   \<and> applications_block js None = Inr []
   \<and> build_context js (p\<lparr>applicationCount := Some (JNum (Fin 0))\<rparr>)
       = build_context js (p\<lparr>applicationCount := None\<rparr>)
   \<and> respond js apiKey backend (p\<lparr>applicationCount := Some (JNum (Fin 0))\<rparr>)
       = respond js apiKey backend (p\<lparr>applicationCount := None\<rparr>)
   \<and> serve js apiKey backend (req\<lparr>req_json := Inr (JObj (kvs @ [(''applicationCount'', JNum (Fin 0))]))\<rparr>)
       = serve js apiKey backend
           (req\<lparr>req_json := Inr (JObj (filter (\<lambda>kv. fst kv \<noteq> ''applicationCount'') kvs))\<rparr>)"
proof -
  let ?p = "\<lparr>resourcesByCategory = own kvs ''resourcesByCategory'',
             interviewOutcomes = own kvs ''interviewOutcomes'',
             applicationCount = own kvs ''applicationCount''\<rparr>"
  have with_zero: "destructure (JObj (kvs @ [(''applicationCount'', JNum (Fin 0))]))
      = Inr (?p\<lparr>applicationCount := Some (JNum (Fin 0))\<rparr>)"
    by (simp add: destructure_def own_snoc)
  have without: "destructure (JObj (filter (\<lambda>kv. fst kv \<noteq> ''applicationCount'') kvs))
      = Inr (?p\<lparr>applicationCount := None\<rparr>)"
    by (simp add: destructure_def own_without)
  have same: "respond js apiKey backend (r\<lparr>applicationCount := Some (JNum (Fin 0))\<rparr>)
       = respond js apiKey backend (r\<lparr>applicationCount := None\<rparr>)" for r
    by (rule respond_cong_context) (rule build_context_zero_count)
  have "serve js apiKey backend (req\<lparr>req_json := Inr (JObj (kvs @ [(''applicationCount'', JNum (Fin 0))]))\<rparr>)
       = serve js apiKey backend
           (req\<lparr>req_json := Inr (JObj (filter (\<lambda>kv. fst kv \<noteq> ''applicationCount'') kvs))\<rparr>)"
    using same [of ?p] by (simp add: serve_def with_zero without)
  with same [of p] build_context_zero_count [of js p] applications_block_zero [of js]
    applications_block_absent [of js]
  show ?thesis by simp
qed

section \<open>Properties of the store\<close>

lemma insert_permitted [simp]: "permitted uid t Insert owner = (uid = Some owner)"
  by (cases t) (simp_all add: permitted_def policies_def)

lemma select_permitted [simp]: "permitted uid t Select owner = (uid = Some owner)"
  by (cases t) (simp_all add: permitted_def policies_def)

lemma permitted_owner: "permitted uid t c owner \<Longrightarrow> uid = Some owner"
  by (simp add: permitted_def)

lemma insert_into_Inr:
  "insert_into t uid r rows = Inr rows' \<Longrightarrow> uid = Some (user_id r) \<and> rows' = rows @ [r]"
  by (auto simp: insert_into_def split: if_splits)

lemma insert_into_other_owner:
  "uid \<noteq> Some (user_id r) \<Longrightarrow> insert_into t uid r rows = Inl RlsViolation"
  by (simp add: insert_into_def)

lemma insert_into_fresh:
  "row_id r \<notin> set (map row_id rows) \<Longrightarrow> insert_into t (Some (user_id r)) r rows = Inr (rows @ [r])"
  by (simp add: insert_into_def)

lemma insert_interview_Inr:
  "insert_interview uid r d = Inr d' \<Longrightarrow> uid = Some (user_id r) \<and> interviews d' = interviews d @ [r]"
  by (auto simp: insert_interview_def split: sum.splits option.splits if_splits dest: insert_into_Inr)

lemma insert_interview_other_owner:
  "uid \<noteq> Some (user_id r) \<Longrightarrow> insert_interview uid r d = Inl RlsViolation"
  by (simp add: insert_interview_def insert_into_other_owner)

lemma handleAddResource_success:
  assumes "handleAddResource u new_id now form d = (ToastSuccess msg, d')"
  shows "\<exists>r. resources d' = resources d @ [r] \<and> user_id r = u \<and> row_id r = new_id"
  using assms
  by (auto simp: handleAddResource_def split: sum.splits dest!: insert_into_Inr)

lemma handleAddResource_fresh:
  assumes "new_id \<notin> set (map row_id (resources d))"
  shows "fst (handleAddResource u new_id now form d) = ToastSuccess ''Resource added!''"
  using assms by (simp add: handleAddResource_def insert_into_def)

text \<open>
  C1. An insert into any of the six owned tables that succeeds stores the row as sent,
  and its \<open>user_id\<close> is the caller's identity; an insert whose \<open>user_id\<close> differs from
  the caller's identity, or one sent without a session, is refused by the policy. The
  same holds for an interview, whose insert also checks the referenced application, and
  the row that \<open>handleAddResource\<close> stores is owned by the signed-in user.
\<close>

theorem insert_owner_is_caller:
  "(insert_into t (Some u) r rows = Inr rows' \<longrightarrow> user_id r = u \<and> rows' = rows @ [r])
   \<and> (user_id r' \<noteq> u \<longrightarrow> insert_into t (Some u) r' rows = Inl RlsViolation)
   \<and> insert_into t None r rows = Inl RlsViolation
   \<and> (insert_interview (Some u) ri d = Inr d' \<longrightarrow>
        user_id ri = u \<and> interviews d' = interviews d @ [ri])
   \<and> (user_id ri' \<noteq> u \<longrightarrow> insert_interview (Some u) ri' d = Inl RlsViolation)
   \<and> (handleAddResource u new_id now form d = (ToastSuccess msg, d'') \<longrightarrow>
        (\<exists>x. resources d'' = resources d @ [x] \<and> user_id x = u \<and> row_id x = new_id))"
proof (intro conjI impI)
  assume "insert_into t (Some u) r rows = Inr rows'"
  from insert_into_Inr [OF this] show "user_id r = u" and "rows' = rows @ [r]" by simp_all
next
  assume "user_id r' \<noteq> u"
  then show "insert_into t (Some u) r' rows = Inl RlsViolation"
    by (intro insert_into_other_owner) simp
next
  show "insert_into t None r rows = Inl RlsViolation"
    by (intro insert_into_other_owner) simp
next
  assume "insert_interview (Some u) ri d = Inr d'"
  from insert_interview_Inr [OF this]
  show "user_id ri = u" and "interviews d' = interviews d @ [ri]" by simp_all
next
  assume "user_id ri' \<noteq> u"
  then show "insert_interview (Some u) ri' d = Inl RlsViolation"
    by (intro insert_interview_other_owner) simp
next
  assume "handleAddResource u new_id now form d = (ToastSuccess msg, d'')"
  then show "\<exists>x. resources d'' = resources d @ [x] \<and> user_id x = u \<and> row_id x = new_id"
    by (rule handleAddResource_success)
qed

text \<open>The inserts of user 1, as owner and in the name of user 2.\<close>

theorem insert_owner_is_caller_witness:
  "insert_into Resources (Some 1) (resource_of 3 1) [] = Inr [resource_of 3 1]
   \<and> user_id (resource_of 3 1) = 1
   \<and> user_id (resource_of 3 2) \<noteq> 1
   \<and> insert_into Resources (Some 1) (resource_of 3 2) [] = Inl RlsViolation
   \<and> insert_interview (Some 1) (interview_of 11 1 (Some 5) 3000) sample_db
       = Inr (sample_db\<lparr>interviews := interviews sample_db @ [interview_of 11 1 (Some 5) 3000]\<rparr>)
   \<and> insert_interview (Some 1) (interview_of 11 2 (Some 5) 3000) sample_db = Inl RlsViolation
   \<and> fst (handleAddResource 1 8 200 sample_form sample_db) = ToastSuccess ''Resource added!''
   \<and> map user_id (resources (snd (handleAddResource 1 8 200 sample_form sample_db))) = [2, 1]"
  using insert_owner_is_caller [of Resources 1 "resource_of 3 1" "[]" "[resource_of 3 1]"
      "resource_of 3 2" "interview_of 11 1 (Some 5) 3000" sample_db
      "sample_db\<lparr>interviews := interviews sample_db @ [interview_of 11 1 (Some 5) 3000]\<rparr>"
      "interview_of 11 2 (Some 5) 3000" 8 200 sample_form "''Resource added!''"
      "snd (handleAddResource 1 8 200 sample_form sample_db)"]
  by (simp add: insert_into_def insert_interview_def handleAddResource_def sample_db_def
      resource_of_def interview_of_def application_of_def sample_form_def or_null_def)

subsection \<open>Updates and deletes of rows the caller does not own\<close>

lemma not_targeted_foreign:
  "user_id r \<noteq> u \<Longrightarrow> \<not> targeted (Some u) t c i r"
  by (simp add: targeted_def)

lemma not_targeted_other_id:
  "row_id r \<noteq> i \<Longrightarrow> \<not> targeted uid t c i r"
  by (simp add: targeted_def)

lemma delete_from_untargeted:
  assumes "\<forall>r\<in>set rows. \<not> targeted uid t Delete i r"
  shows "delete_from t uid i rows = Inr rows"
  using assms by (simp add: delete_from_def)

lemma update_in_untargeted:
  assumes "\<forall>r\<in>set rows. \<not> targeted uid t Update i r"
  shows "update_in t now uid i a rows = Inr rows"
proof -
  have "map (\<lambda>r. if targeted uid t Update i r then touch now t (apply_set a r) else r) rows = rows"
    using assms by (induction rows) simp_all
  moreover have "\<not> list_ex (\<lambda>r. targeted uid t Update i r
            \<and> \<not> permitted uid t Update (user_id (apply_set a r))) rows"
    using assms by (simp add: list_ex_iff)
  ultimately show ?thesis by (simp add: update_in_def)
qed

lemma foreign_untargeted:
  assumes "\<forall>r\<in>set rows. row_id r = i \<longrightarrow> user_id r \<noteq> u"
  shows "\<forall>r\<in>set rows. \<not> targeted (Some u) t c i r"
  using assms by (auto simp: targeted_def)

lemma absent_untargeted:
  assumes "j \<notin> set (map row_id rows)"
  shows "\<forall>r\<in>set rows. \<not> targeted uid t c j r"
  using assms by (auto simp: targeted_def)

text \<open>
  C3, as amended. When no row with the id \<open>i\<close> is owned by the caller, and no row at all
  has the id \<open>j\<close>, an update or a delete of \<open>i\<close> changes no row and reports no error,
  exactly as the same call on \<open>j\<close>: \<open>deleteResource\<close> shows its success toast and
  \<open>toggleComplete\<close> shows none, and the store is as it was.
\<close>

theorem foreign_row_like_absent_row:
  assumes foreign: "\<forall>r\<in>set rows. row_id r = i \<longrightarrow> user_id r \<noteq> u"
    and absent: "j \<notin> set (map row_id rows)"
    and foreign_res: "\<forall>r\<in>set (resources d). row_id r = i \<longrightarrow> user_id r \<noteq> u"
    and absent_res: "j \<notin> set (map row_id (resources d))"
  shows "delete_from t (Some u) i rows = Inr rows
       \<and> delete_from t (Some u) j rows = Inr rows
       \<and> update_in t now (Some u) i a rows = Inr rows
       \<and> update_in t now (Some u) j a rows = Inr rows
       \<and> deleteResource u i d = (ToastSuccess ''Resource deleted'', d)
       \<and> deleteResource u j d = (ToastSuccess ''Resource deleted'', d)
       \<and> toggleComplete u now i b d = (NoToast, d)
       \<and> toggleComplete u now j b d = (NoToast, d)"
proof -
  note fi = foreign_untargeted [OF foreign] and aj = absent_untargeted [OF absent]
  have "delete_from t (Some u) i rows = Inr rows" "delete_from t (Some u) j rows = Inr rows"
    by (rule delete_from_untargeted, rule fi, rule delete_from_untargeted, rule aj)
  moreover
  have "update_in t now (Some u) i a rows = Inr rows" "update_in t now (Some u) j a rows = Inr rows"
    by (rule update_in_untargeted, rule fi, rule update_in_untargeted, rule aj)
  moreover
  note fr = foreign_untargeted [OF foreign_res] and ar = absent_untargeted [OF absent_res]
  have "deleteResource u i d = (ToastSuccess ''Resource deleted'', d)"
    by (simp add: deleteResource_def delete_from_untargeted [OF fr])
  moreover have "deleteResource u j d = (ToastSuccess ''Resource deleted'', d)"
    by (simp add: deleteResource_def delete_from_untargeted [OF ar])
  moreover have "toggleComplete u now i b d = (NoToast, d)"
    by (simp add: toggleComplete_def update_in_untargeted [OF fr])
  moreover have "toggleComplete u now j b d = (NoToast, d)"
    by (simp add: toggleComplete_def update_in_untargeted [OF ar])
  ultimately show ?thesis by simp
qed

text \<open>User 1 acts on resource 7, which user 2 owns, and on the id 8, which no row has.\<close>

theorem foreign_row_like_absent_row_witness:
  "deleteResource 1 7 sample_db = (ToastSuccess ''Resource deleted'', sample_db)
   \<and> deleteResource 1 8 sample_db = (ToastSuccess ''Resource deleted'', sample_db)
   \<and> toggleComplete 1 200 7 False sample_db = (NoToast, sample_db)
   \<and> toggleComplete 1 200 8 False sample_db = (NoToast, sample_db)
   \<and> delete_from Resources (Some 1) 7 (resources sample_db) = Inr (resources sample_db)
   \<and> map user_id (resources sample_db) = [2]"
proof -
  have a: "\<forall>r\<in>set (resources sample_db). row_id r = 7 \<longrightarrow> user_id r \<noteq> 1"
    by (simp add: sample_db_def resource_of_def)
  have b: "8 \<notin> set (map row_id (resources sample_db))"
    by (simp add: sample_db_def resource_of_def)
  from foreign_row_like_absent_row [OF a b a b, of Resources 200 _ False]
  show ?thesis by (simp add: sample_db_def resource_of_def)
qed

text \<open>
  C3 as stated fails: the delete of another user's resource is not reported as a
  failure. The store returns no error and the page shows \<open>Resource deleted\<close>.
\<close>

theorem foreign_delete_reports_success:
  "user_id (resource_of 7 2) \<noteq> 1
   \<and> resources sample_db = [resource_of 7 2]
   \<and> \<not> isl (delete_from Resources (Some 1) 7 (resources sample_db))
   \<and> fst (deleteResource 1 7 sample_db) = ToastSuccess ''Resource deleted''"
  by (simp add: sample_db_def resource_of_def deleteResource_def delete_from_def)

subsection \<open>Deleting an application\<close>

lemma targeted_delete_application:
  "targeted (Some u) Applications Delete i r = (row_id r = i \<and> user_id r = u)"
  by (auto simp: targeted_def permitted_def policies_def)

lemma gone_ids:
  assumes "\<exists>a\<in>set rows. row_id a = i \<and> user_id a = u"
  shows "set (map row_id (filter (targeted (Some u) Applications Delete i) rows)) = {i}"
  using assms by (auto simp: targeted_delete_application)

lemma on_delete_set_null_single:
  assumes "set gone = {i}"
  shows "on_delete_set_null now gone r =
     (if application_id (cols r) = Some i
      then r\<lparr>updated_at := now, cols := (cols r)\<lparr>application_id := None\<rparr>\<rparr> else r)"
  using assms
  by (auto simp: on_delete_set_null_def touch_def has_update_trigger_def split: option.split)

lemma delete_application_owned:
  assumes "\<exists>a\<in>set (applications d). row_id a = i \<and> user_id a = u"
  shows "delete_application now (Some u) i d =
     Inr (d\<lparr>applications := filter (\<lambda>a. \<not> (row_id a = i \<and> user_id a = u)) (applications d),
            interviews := map (\<lambda>r. if application_id (cols r) = Some i
                then r\<lparr>updated_at := now, cols := (cols r)\<lparr>application_id := None\<rparr>\<rparr> else r)
              (interviews d)\<rparr>)"
proof -
  have "on_delete_set_null now
          (map row_id (filter (targeted (Some u) Applications Delete i) (applications d)))
        = (\<lambda>r. if application_id (cols r) = Some i
                then r\<lparr>updated_at := now, cols := (cols r)\<lparr>application_id := None\<rparr>\<rparr> else r)"
    by (rule ext, rule on_delete_set_null_single, rule gone_ids, rule assms)
  then show ?thesis
    by (simp add: delete_application_def delete_from_def targeted_delete_application)
qed

text \<open>
  C4, as amended. Deleting an application the caller owns removes it, sets
  \<open>application_id\<close> to null on every interview that referenced it and, through the
  update trigger, sets \<open>updated_at\<close> of those interviews to the time of the delete; their
  other columns, the other interviews and the other four tables are unchanged, and no
  interview is deleted.
\<close>

theorem delete_application_sets_null:
  assumes "\<exists>a\<in>set (applications d). row_id a = i \<and> user_id a = u"
  shows "\<exists>d'. deleteApplication u now i d = (ToastSuccess ''Application deleted'', d')
     \<and> applications d' = filter (\<lambda>a. \<not> (row_id a = i \<and> user_id a = u)) (applications d)
     \<and> interviews d' =
         map (\<lambda>r. if application_id (cols r) = Some i
                   then r\<lparr>updated_at := now, cols := (cols r)\<lparr>application_id := None\<rparr>\<rparr>
                   else r)
           (interviews d)
     \<and> map row_id (interviews d') = map row_id (interviews d)
     \<and> resources d' = resources d \<and> roadmap_items d' = roadmap_items d
     \<and> contacts d' = contacts d \<and> practice_tests d' = practice_tests d"
proof -
  have ids: "map row_id (map (\<lambda>r. if application_id (cols r) = Some i
                   then r\<lparr>updated_at := now, cols := (cols r)\<lparr>application_id := None\<rparr>\<rparr>
                   else r) rows) = map row_id rows" for rows :: "interview_cols row list"
    by (induction rows) simp_all
  show ?thesis
    unfolding deleteApplication_def delete_application_owned [OF assms]
    by (simp add: ids)
qed

text \<open>User 1 deletes application 5 at time 200; interview 9 referenced it.\<close>

theorem delete_application_sets_null_witness:
  "deleteApplication 1 200 5 sample_db =
     (ToastSuccess ''Application deleted'',
      sample_db\<lparr>applications := [],
                interviews := [(interview_of 9 1 None 1000)\<lparr>updated_at := 200\<rparr>,
                               interview_of 10 1 None 2000]\<rparr>)"
proof -
  have "\<exists>a\<in>set (applications sample_db). row_id a = 5 \<and> user_id a = 1"
    by (simp add: sample_db_def application_of_def)
  from delete_application_sets_null [OF this, of 200]
  show ?thesis
    by (simp add: sample_db_def application_of_def interview_of_def deleteApplication_def
        delete_application_def delete_from_def targeted_def permitted_def policies_def
        on_delete_set_null_def touch_def has_update_trigger_def)
qed

text \<open>
  C4 as stated fails: interview 9 is not left otherwise unchanged. Its \<open>updated_at\<close> was
  100 and is 200 after the delete, so the old row with a null \<open>application_id\<close> is not
  among the interviews.
\<close>

theorem set_null_refreshes_updated_at:
  "interviews sample_db = [interview_of 9 1 (Some 5) 1000, interview_of 10 1 None 2000]
   \<and> interviews (snd (deleteApplication 1 200 5 sample_db))
       = [(interview_of 9 1 None 1000)\<lparr>updated_at := 200\<rparr>, interview_of 10 1 None 2000]
   \<and> updated_at (interview_of 9 1 (Some 5) 1000) = 100
   \<and> interview_of 9 1 None 1000 \<notin> set (interviews (snd (deleteApplication 1 200 5 sample_db)))"
  by (simp add: sample_db_def application_of_def interview_of_def deleteApplication_def
        delete_application_def delete_from_def targeted_def permitted_def policies_def
        on_delete_set_null_def touch_def has_update_trigger_def)

section \<open>Properties of the outcome histogram\<close>











section \<open>Properties of the interview views\<close>

lemma nth_in_picked:
  assumes "k < length xs" and "distinct xs"
  shows "xs ! k \<in> set (map snd (filter (\<lambda>(n, x). P n x) (enumerate 0 xs))) \<longleftrightarrow> P k (xs ! k)"
proof
  assume "xs ! k \<in> set (map snd (filter (\<lambda>(n, x). P n x) (enumerate 0 xs)))"
  then obtain n where n: "n < length xs" "xs ! n = xs ! k" "P n (xs ! n)"
    by (auto simp: in_set_enumerate_eq)
  with assms have "n = k" by (simp add: nth_eq_iff_index_eq)
  with n show "P k (xs ! k)" by simp
next
  assume "P k (xs ! k)"
  with assms(1) have "(k, xs ! k) \<in> set (filter (\<lambda>(n, x). P n x) (enumerate 0 xs))"
    by (simp add: in_set_enumerate_eq)
  then show "xs ! k \<in> set (map snd (filter (\<lambda>(n, x). P n x) (enumerate 0 xs)))"
    by force
qed

lemma distinct_rows: "distinct (map row_id rows) \<Longrightarrow> distinct rows"
  by (simp add: distinct_map)

lemma in_upcoming:
  assumes "k < length rows" and "distinct (map row_id rows)"
  shows "rows ! k \<in> set (upcomingInterviews clock rows)
           \<longleftrightarrow> clock k < interview_date (cols (rows ! k))"
  unfolding upcomingInterviews_def
  using nth_in_picked [OF assms(1) distinct_rows [OF assms(2)],
      of "\<lambda>n i. isFuture (clock n) (interview_date (cols i))"]
  by (simp add: isFuture_def)

lemma in_past:
  assumes "k < length rows" and "distinct (map row_id rows)"
  shows "rows ! k \<in> set (pastInterviews clock rows)
           \<longleftrightarrow> interview_date (cols (rows ! k)) < clock (length rows + k)"
  unfolding pastInterviews_def
  using nth_in_picked [OF assms(1) distinct_rows [OF assms(2)],
      of "\<lambda>n i. isPast (clock (length rows + n)) (interview_date (cols i))"]
  by (simp add: isPast_def)

text \<open>
  C6, as amended. For the fetched interviews (each with its own id), the interview at
  position \<open>k\<close> is upcoming exactly when its date is after the clock reading of its
  \<open>isFuture\<close> call and past exactly when its date is before the clock reading of its
  \<open>isPast\<close> call. When both readings are the same instant \<open>now\<close>, it is never in both
  views, and it is in neither exactly when its date equals \<open>now\<close>.
\<close>

theorem upcoming_past_by_clock_reading:
  assumes "k < length rows" and "distinct (map row_id rows)"
  shows "(rows ! k \<in> set (upcomingInterviews clock rows)
            \<longleftrightarrow> clock k < interview_date (cols (rows ! k)))
       \<and> (rows ! k \<in> set (pastInterviews clock rows)
            \<longleftrightarrow> interview_date (cols (rows ! k)) < clock (length rows + k))
       \<and> (clock k = now \<and> clock (length rows + k) = now \<longrightarrow>
            \<not> (rows ! k \<in> set (upcomingInterviews clock rows)
                \<and> rows ! k \<in> set (pastInterviews clock rows))
            \<and> (rows ! k \<notin> set (upcomingInterviews clock rows)
                \<and> rows ! k \<notin> set (pastInterviews clock rows)
                  \<longleftrightarrow> interview_date (cols (rows ! k)) = now))"
  using in_upcoming [OF assms, of clock] in_past [OF assms, of clock] by auto

text \<open>
  With a clock that stays at 1500, interview 10 (at 2000) is upcoming and interview 9
  (at 1000) is past.
\<close>

theorem upcoming_past_by_clock_reading_witness:
  "interview_of 10 1 None 2000 \<in> set (upcomingInterviews (\<lambda>n. 1500) (interviews sample_db))
   \<and> interview_of 10 1 None 2000 \<notin> set (pastInterviews (\<lambda>n. 1500) (interviews sample_db))
   \<and> interview_of 9 1 (Some 5) 1000 \<in> set (pastInterviews (\<lambda>n. 1500) (interviews sample_db))
   \<and> interview_of 9 1 (Some 5) 1000 \<notin> set (upcomingInterviews (\<lambda>n. 1500) (interviews sample_db))"
proof -
  have len: "(0::nat) < length (interviews sample_db)" "Suc 0 < length (interviews sample_db)"
    and ids: "distinct (map row_id (interviews sample_db))"
    and r0: "interviews sample_db ! 0 = interview_of 9 1 (Some 5) 1000"
    and r1: "interviews sample_db ! Suc 0 = interview_of 10 1 None 2000"
    by (simp_all add: sample_db_def interview_of_def)
  from upcoming_past_by_clock_reading [OF len(1) ids, of "\<lambda>n. 1500" 1500]
    upcoming_past_by_clock_reading [OF len(2) ids, of "\<lambda>n. 1500" 1500]
  show ?thesis by (simp add: r0 r1 interview_of_def)
qed

text \<open>
  C6 as stated fails. With a clock that stays at 1000, the interview at 1000 satisfies
  \<open>interview_date \<le> now\<close> and is not past, and it appears in neither view. With a
  clock that reads 900 during the first pass and 1100 during the second, the same
  interview appears in both views.
\<close>

theorem interview_in_neither_or_both_views:
  "interview_date (cols (interview_of 9 1 (Some 5) 1000)) \<le> 1000
   \<and> interview_of 9 1 (Some 5) 1000 \<notin> set (pastInterviews (\<lambda>n. 1000) (interviews sample_db))
   \<and> interview_of 9 1 (Some 5) 1000 \<notin> set (upcomingInterviews (\<lambda>n. 1000) (interviews sample_db))
   \<and> interview_of 9 1 (Some 5) 1000 \<in> set (upcomingInterviews advancing_clock (interviews sample_db))
   \<and> interview_of 9 1 (Some 5) 1000 \<in> set (pastInterviews advancing_clock (interviews sample_db))"
  by (simp add: sample_db_def interview_of_def upcomingInterviews_def pastInterviews_def
      isFuture_def isPast_def advancing_clock_def enumerate_eq_zip)

section \<open>Properties of the roadmap listing\<close>

lemma text_lt_total: "text_lt a b \<or> a = b \<or> text_lt b a"
proof (induction a b rule: text_lt.induct)
  case (4 x xs y ys)
  have "(of_char x :: nat) < of_char y \<or> x = y \<or> (of_char y :: nat) < of_char x"
    by (metis linorder_less_linear of_char_eq_iff)
  with 4 show ?case by auto
qed simp_all

lemma text_lt_trans: "text_lt a b \<Longrightarrow> text_lt b c \<Longrightarrow> text_lt a c"
proof (induction a b arbitrary: c rule: text_lt.induct)
  case (2 y ys)
  then show ?case by (cases c) simp_all
next
  case (4 x xs y ys)
  then show ?case by (cases c) auto
qed simp_all

lemma text_lt_irrefl: "\<not> text_lt a a"
  by (induction a) simp_all

lemma text_ge_trans:
  assumes "\<not> text_lt a b" and "\<not> text_lt b c"
  shows "\<not> text_lt a c"
proof
  assume ac: "text_lt a c"
  from text_lt_total [of b a] show False
  proof (elim disjE)
    assume "text_lt b a"
    from this ac have "text_lt b c" by (rule text_lt_trans)
    with assms(2) show False ..
  next
    assume "b = a"
    with ac assms(2) show False by simp
  next
    assume "text_lt a b"
    with assms(1) show False ..
  qed
qed

lemma week_lt_trans: "week_lt a b \<Longrightarrow> week_lt b c \<Longrightarrow> week_lt a c"
  by (auto simp: week_lt_def split: option.splits)

lemma week_lt_total: "week_lt a b \<or> a = b \<or> week_lt b a"
  by (auto simp: week_lt_def split: option.splits)

lemma week_lt_irrefl: "\<not> week_lt a a"
  by (simp add: week_lt_def split: option.splits)

lemma roadmap_le_total: "roadmap_le a b \<or> roadmap_le b a"
  using week_lt_total [of "week_number (cols a)" "week_number (cols b)"]
    text_lt_total [of "priority (cols a)" "priority (cols b)"]
    text_lt_trans [of "priority (cols a)" "priority (cols b)" "priority (cols a)"]
    text_lt_irrefl [of "priority (cols a)"]
  unfolding roadmap_le_def by auto

lemma roadmap_le_trans:
  assumes "roadmap_le a b" and "roadmap_le b c"
  shows "roadmap_le a c"
  using assms week_lt_trans [of "week_number (cols a)" "week_number (cols b)" "week_number (cols c)"]
    text_ge_trans [of "priority (cols a)" "priority (cols b)" "priority (cols c)"]
  unfolding roadmap_le_def by auto

lemma set_insert_by: "set (insert_by le x xs) = insert x (set xs)"
  by (induction xs) auto

lemma mset_insert_by: "mset (insert_by le x xs) = add_mset x (mset xs)"
  by (induction xs) simp_all

lemma sorted_insert_by:
  assumes total: "\<And>a b. le a b \<or> le b a" and trans: "\<And>a b c. le a b \<Longrightarrow> le b c \<Longrightarrow> le a c"
    and "sorted_wrt le xs"
  shows "sorted_wrt le (insert_by le x xs)"
  using assms(3)
proof (induction xs)
  case Nil
  then show ?case by simp
next
  case (Cons y ys)
  show ?case
  proof (cases "le x y")
    case True
    with Cons.prems trans show ?thesis by auto
  next
    case False
    with total have "le y x" by blast
    with Cons False show ?thesis by (auto simp: set_insert_by)
  qed
qed

lemma mset_order_by: "mset (order_by le xs) = mset xs"
  by (induction xs) (simp_all add: order_by_def mset_insert_by)

lemma sorted_order_by:
  assumes "\<And>a b. le a b \<or> le b a" and "\<And>a b c. le a b \<Longrightarrow> le b c \<Longrightarrow> le a c"
  shows "sorted_wrt le (order_by le xs)"
proof (induction xs)
  case Nil
  then show ?case by (simp add: order_by_def)
next
  case (Cons x xs)
  have "order_by le (x # xs) = insert_by le x (order_by le xs)"
    by (simp add: order_by_def)
  with Cons sorted_insert_by [of le "order_by le xs" x] assms show ?case by metis
qed

lemma select_own: "filter (\<lambda>r. user_id r = u) (select_from RoadmapItems (Some u) rows)
    = filter (\<lambda>r. user_id r = u) rows"
  by (auto simp: select_from_def intro!: filter_cong)

text \<open>
  The listing holds exactly the caller's rows, in the order of the comparison the query
  asks for.
\<close>

lemma fetchItems_sorted_permutation:
  "sorted_wrt roadmap_le (fetchItems u rows)
   \<and> mset (fetchItems u rows) = mset (filter (\<lambda>r. user_id r = u) rows)
   \<and> text_lt ''high'' ''low'' \<and> text_lt ''low'' ''medium''"
proof -
  have "sorted_wrt roadmap_le (fetchItems u rows)"
    unfolding fetchItems_def
    by (rule sorted_order_by) (rule roadmap_le_total, erule (1) roadmap_le_trans)
  moreover have "mset (fetchItems u rows) = mset (filter (\<lambda>r. user_id r = u) rows)"
    by (simp add: fetchItems_def mset_order_by select_own)
  moreover have "text_lt ''high'' ''low''" "text_lt ''low'' ''medium''" by simp_all
  ultimately show ?thesis by simp
qed

text \<open>
  C7, at the input on which the code departs from it. User 1 has the items 2, 4 and 6 in
  week 1, with the priorities high, medium and low. The listing is sorted by
  \<open>week_number\<close> ascending, but within week 1 it shows medium, low, high: the order of
  the three words as texts, descending, and not high before medium before low.
\<close>

theorem roadmap_medium_before_low_before_high:
  "map row_id (fetchItems 1 sample_roadmap) = [4, 6, 2, 1, 5]
   \<and> map (\<lambda>r. (week_number (cols r), priority (cols r))) (fetchItems 1 sample_roadmap)
       = [(Some 1, ''medium''), (Some 1, ''low''), (Some 1, ''high''), (Some 2, ''high''),
          (None, ''low'')]"
  by (simp add: fetchItems_def sample_roadmap_def roadmap_of_def select_from_def permitted_def
      policies_def order_by_def roadmap_le_def week_lt_def)

section \<open>Properties of the weekly series\<close>

lemma weeklyProgress_rows:
  "weeklyProgress (fetchStats fl rnd res apps ivs cons items)
     = map (\<lambda>(n, day). (day, math_floor (fl (rnd n * 5))))
         (enumerate 0 [''Mon'', ''Tue'', ''Wed'', ''Thu'', ''Fri'', ''Sat'', ''Sun''])"
  by (simp add: fetchStats_def)

lemma progressOverTime_rows:
  "progressOverTime_of (fetchAnalytics fl rnd irows rrows) = progressOverTime fl rnd"
  by (simp add: fetchAnalytics_def)

text \<open>
  C9. With the same random draws, the weekly series of the dashboard and of the
  analytics page are the same whatever rows were fetched. With the same fetched rows,
  two runs can differ: when the rounding keeps the doubles 0, 2.5 and 5 as they are, the
  draws 0 and 0.5 give different series.
\<close>

theorem weekly_series_is_random_filler:
  "weeklyProgress (fetchStats fl rnd res apps ivs cons items)
     = weeklyProgress (fetchStats fl rnd res' apps' ivs' cons' items')
   \<and> progressOverTime_of (fetchAnalytics fl rnd irows rrows)
     = progressOverTime_of (fetchAnalytics fl rnd irows' rrows')
   \<and> (fl 0 = 0 \<and> fl (5 / 2) = 5 / 2 \<and> fl 5 = 5 \<longrightarrow>
        (\<exists>rnd1 rnd2. (\<forall>n. 0 \<le> rnd1 n \<and> rnd1 n < 1) \<and> (\<forall>n. 0 \<le> rnd2 n \<and> rnd2 n < 1)
           \<and> weeklyProgress (fetchStats fl rnd1 res apps ivs cons items)
               \<noteq> weeklyProgress (fetchStats fl rnd2 res apps ivs cons items)
           \<and> progressOverTime_of (fetchAnalytics fl rnd1 irows rrows)
               \<noteq> progressOverTime_of (fetchAnalytics fl rnd2 irows rrows)))"
proof (intro conjI impI)
  show "weeklyProgress (fetchStats fl rnd res apps ivs cons items)
     = weeklyProgress (fetchStats fl rnd res' apps' ivs' cons' items')"
    by (simp only: weeklyProgress_rows)
  show "progressOverTime_of (fetchAnalytics fl rnd irows rrows)
     = progressOverTime_of (fetchAnalytics fl rnd irows' rrows')"
    by (simp only: progressOverTime_rows)
next
  assume "fl 0 = 0 \<and> fl (5 / 2) = 5 / 2 \<and> fl 5 = 5"
  then have exact: "fl 0 = 0" "fl (5 / 2) = 5 / 2" "fl 5 = 5" by blast+
  have half: "\<lfloor>5 / 2 :: rat\<rfloor> = 2" by (simp add: floor_eq_iff)
  let ?lo = "\<lambda>n::nat. 0 :: rat" and ?hi = "\<lambda>n::nat. 1 / 2 :: rat"
  show "\<exists>rnd1 rnd2. (\<forall>n. 0 \<le> rnd1 n \<and> rnd1 n < 1) \<and> (\<forall>n. 0 \<le> rnd2 n \<and> rnd2 n < 1)
           \<and> weeklyProgress (fetchStats fl rnd1 res apps ivs cons items)
               \<noteq> weeklyProgress (fetchStats fl rnd2 res apps ivs cons items)
           \<and> progressOverTime_of (fetchAnalytics fl rnd1 irows rrows)
               \<noteq> progressOverTime_of (fetchAnalytics fl rnd2 irows rrows)"
  proof (intro exI conjI)
    show "\<forall>n. 0 \<le> ?lo n \<and> ?lo n < 1" and "\<forall>n. 0 \<le> ?hi n \<and> ?hi n < 1"
      by simp_all
    show "weeklyProgress (fetchStats fl ?lo res apps ivs cons items)
               \<noteq> weeklyProgress (fetchStats fl ?hi res apps ivs cons items)"
      by (simp add: weeklyProgress_rows math_floor_def enumerate_eq_zip exact half)
    show "progressOverTime_of (fetchAnalytics fl ?lo irows rrows)
               \<noteq> progressOverTime_of (fetchAnalytics fl ?hi irows rrows)"
      by (simp add: progressOverTime_rows progressOverTime_def math_floor_def enumerate_eq_zip exact)
  qed
qed

text \<open>With exact arithmetic: all draws 0 give seven 0s, all draws 0.5 give seven 2s.\<close>

theorem weekly_series_is_random_filler_witness:
  "map snd (weeklyProgress (fetchStats (\<lambda>x. x) (\<lambda>n. 0) [True] [''Applied''] [()] [()] [''completed'']))
      = [0, 0, 0, 0, 0, 0, 0]
   \<and> map snd (weeklyProgress (fetchStats (\<lambda>x. x) (\<lambda>n. 1 / 2) [True] [''Applied''] [()] [()] [''completed'']))
      = [2, 2, 2, 2, 2, 2, 2]
   \<and> weeklyProgress (fetchStats (\<lambda>x. x) (\<lambda>n. 1 / 2) [True] [''Applied''] [()] [()] [''completed''])
      = weeklyProgress (fetchStats (\<lambda>x. x) (\<lambda>n. 1 / 2) [] [] ([] :: unit list) ([] :: unit list) [])
   \<and> (\<exists>rnd1 rnd2. weeklyProgress (fetchStats (\<lambda>x. x) rnd1 [True] [''Applied''] [()] [()] [''completed''])
         \<noteq> weeklyProgress (fetchStats (\<lambda>x. x) rnd2 [True] [''Applied''] [()] [()] [''completed'']))"
proof -
  have ex: "(\<lambda>x::rat. x) 0 = 0 \<and> (\<lambda>x::rat. x) (5 / 2) = 5 / 2 \<and> (\<lambda>x::rat. x) 5 = 5" by simp
  from weekly_series_is_random_filler [of "\<lambda>x. x" "\<lambda>n. 1 / 2" "[True]" "[''Applied'']" "[()]" "[()]"
      "[''completed'']" "[]" "[]" "[] :: unit list" "[] :: unit list" "[]" "[]" "[]" "[]" "[]"] ex
  have "weeklyProgress (fetchStats (\<lambda>x. x) (\<lambda>n. 1 / 2) [True] [''Applied''] [()] [()] [''completed''])
      = weeklyProgress (fetchStats (\<lambda>x. x) (\<lambda>n. 1 / 2) [] [] ([] :: unit list) ([] :: unit list) [])"
    and "\<exists>rnd1 rnd2. weeklyProgress (fetchStats (\<lambda>x. x) rnd1 [True] [''Applied''] [()] [()] [''completed''])
         \<noteq> weeklyProgress (fetchStats (\<lambda>x. x) rnd2 [True] [''Applied''] [()] [()] [''completed''])"
    by blast+
  moreover have "map snd (weeklyProgress (fetchStats (\<lambda>x. x) (\<lambda>n. 0) [True] [''Applied''] [()] [()] [''completed'']))
      = [0, 0, 0, 0, 0, 0, 0]"
    by (simp add: weeklyProgress_rows math_floor_def enumerate_eq_zip)
  moreover have "map snd (weeklyProgress (fetchStats (\<lambda>x. x) (\<lambda>n. 1 / 2) [True] [''Applied''] [()] [()] [''completed'']))
      = [2, 2, 2, 2, 2, 2, 2]"
    by (simp add: weeklyProgress_rows math_floor_def enumerate_eq_zip floor_eq_iff)
  ultimately show ?thesis by blast
qed

end
